theory Spec2Isabelle
  imports Complex_Main
begin

section \<open>The AI image detector: preprocessing and the decision procedure\<close>

text \<open>
  A shallow embedding of \<^verbatim>\<open>app.py\<close>: the module constants, \<^verbatim>\<open>preprocess_image\<close> and
  \<^verbatim>\<open>predict_image_class\<close>.

  \<^item> A finite float is modelled by the real number it stands for, and an arithmetic
    operation on floats by the exact operation followed by rounding to the nearest
    float of the result type, ties to even. The classifier answers in float32, the type
    Keras computes in by default, so NumPy subtracts in float32; an array of integers
    divided by the Python float 255.0 is a float64 array. Comparison of floats and
    \<^verbatim>\<open>float()\<close> of a float32 are exact. NaN and the infinities have no value here.
  \<^item> A value of type \<open>exn\<close> is a raised instance of Python's \<^verbatim>\<open>Exception\<close> class,
    which is what the two handlers \<^verbatim>\<open>except Exception as e\<close> of the source catch. The
    outcome of a call is a sum: \<open>Inl e\<close> when the exception \<open>e\<close> leaves the call,
    \<open>Inr v\<close> when the call returns \<open>v\<close>.
  \<^item> The effects of the two functions are threaded through a record \<open>world\<close>: the messages
    passed to \<^verbatim>\<open>st.error\<close> and the batches passed to \<^verbatim>\<open>trained_model.predict\<close>.
  \<^item> Pillow and the trained classifier are not part of the repository: \<^verbatim>\<open>resize\<close>,
    \<^verbatim>\<open>convert\<close> and \<^verbatim>\<open>predict\<close> are parameters, and each of them may raise.
\<close>

subsection \<open>Floats\<close>

text \<open>Rounding a real number to the nearest integer, a tie to the even one.\<close>

definition round_even :: "real \<Rightarrow> int" where
  "round_even x =
     (let n = \<lfloor>x\<rfloor>; r = x - of_int n
      in if r < 1 / 2 then n else if 1 / 2 < r then n + 1 else if even n then n else n + 1)"

text \<open>
  The binary exponent of a number other than zero, and the distance between
  neighbouring floats of \<open>prec\<close> significant bits around it.
\<close>

definition exponent :: "real \<Rightarrow> int" where
  "exponent x = \<lfloor>log 2 \<bar>x\<bar>\<rfloor>"

definition ulp :: "nat \<Rightarrow> real \<Rightarrow> real" where
  "ulp prec x = 2 powr of_int (exponent x - int prec + 1)"

text \<open>
  Rounding to the nearest float of \<open>prec\<close> significant bits, for a number in the range
  of the normal floats of the format (what no operation of the two functions leaves
  on a probability or on a sample over 255).
\<close>

definition round_float :: "nat \<Rightarrow> real \<Rightarrow> real" where
  "round_float prec x =
     (if x = 0 then 0 else of_int (round_even (x / ulp prec x)) * ulp prec x)"

definition float32 :: "real \<Rightarrow> real" where
  "float32 = round_float 24"

definition float64 :: "real \<Rightarrow> real" where
  "float64 = round_float 53"

subsection \<open>Exceptions, arrays and effects\<close>

datatype exn = Exn string

fun str_exn :: "exn \<Rightarrow> string" where
  "str_exn (Exn msg) = msg"

text \<open>
  A NumPy array: the type of its elements, its shape and its elements (the numbers
  they stand for) in row-major order.
\<close>

datatype dtype = Bool | UInt8 | UInt16 | Int32 | Float32 | Float64

record ndarray =
  dtype :: dtype
  shape :: "nat list"
  elems :: "real list"

type_synonym tensor = ndarray

text \<open>
  \<^verbatim>\<open>trained_model.predict(image_batch)\<close>: the classifier raises, or returns a
  two-dimensional array of probabilities, one row per image of the batch.
\<close>

type_synonym keras_model = "tensor \<Rightarrow> exn + real list list"

record world =
  st_errors :: "string list"
  predict_calls :: "tensor list"

definition st_error :: "string \<Rightarrow> world \<Rightarrow> world" where
  "st_error msg w = w\<lparr>st_errors := st_errors w @ [msg]\<rparr>"

subsection \<open>Configuration\<close>

definition IMG_WIDTH :: nat where
  "IMG_WIDTH = 224"

definition IMG_HEIGHT :: nat where
  "IMG_HEIGHT = 224"

definition PREDICTION_THRESHOLD :: real where
  "PREDICTION_THRESHOLD = 0.5"

definition CLASS_LABELS :: "nat \<rightharpoonup> string" where
  "CLASS_LABELS = [0 \<mapsto> ''Authentic (Real) Image'', 1 \<mapsto> ''AI-Generated Image'']"

subsection \<open>Python's indexing and substring test\<close>

text \<open>\<^verbatim>\<open>xs[0]\<close> raises \<^verbatim>\<open>IndexError\<close> on an empty sequence.\<close>

definition getitem0 :: "'a list \<Rightarrow> exn + 'a" where
  "getitem0 xs = (case xs of [] \<Rightarrow> Inl (Exn ''index 0 is out of bounds for axis 0 with size 0'') | x # _ \<Rightarrow> Inr x)"

text \<open>
  \<^verbatim>\<open>d[k]\<close> raises \<^verbatim>\<open>KeyError\<close> on a missing key; the text of the exception is the
  key, here a number in decimal.
\<close>

fun str_nat :: "nat \<Rightarrow> string" where
  "str_nat n =
     (if n < 10 then [''0123456789'' ! n]
      else str_nat (n div 10) @ [''0123456789'' ! (n mod 10)])"

definition dict_getitem :: "(nat \<rightharpoonup> 'v) \<Rightarrow> nat \<Rightarrow> exn + 'v" where
  "dict_getitem d k = (case d k of None \<Rightarrow> Inl (Exn (str_nat k)) | Some v \<Rightarrow> Inr v)"

text \<open>\<^verbatim>\<open>s in t\<close> on strings: \<open>s\<close> occurs in \<open>t\<close> as a contiguous substring.\<close>

fun str_in :: "string \<Rightarrow> string \<Rightarrow> bool" where
  "str_in s [] = (s = [])"
| "str_in s (c # cs) = (take (length s) (c # cs) = s \<or> str_in s cs)"

subsection \<open>Prediction\<close>

text \<open>
  The body of the \<^verbatim>\<open>try\<close> block of \<^verbatim>\<open>predict_image_class\<close> (lines 70 to 85), for a
  model and a batch that are not \<^verbatim>\<open>None\<close>. \<^verbatim>\<open>confidence_ai\<close> is a float32, so
  \<^verbatim>\<open>1 - confidence_ai\<close> is the float32 nearest to the difference;
  \<^verbatim>\<open>float(final_confidence)\<close> is exact.
\<close>

definition predict_body :: "tensor \<Rightarrow> keras_model \<Rightarrow> exn + (string \<times> real)" where
  "predict_body image_batch trained_model =
     (case trained_model image_batch of
        Inl e \<Rightarrow> Inl e
      | Inr predictions \<Rightarrow>
     (case getitem0 predictions of
        Inl e \<Rightarrow> Inl e
      | Inr row \<Rightarrow>
     (case getitem0 row of
        Inl e \<Rightarrow> Inl e
      | Inr confidence_ai \<Rightarrow>
     (let (predicted_class_index, final_confidence) =
            (if confidence_ai \<ge> PREDICTION_THRESHOLD
             then (1, confidence_ai)
             else (0, float32 (1 - confidence_ai)))
      in case dict_getitem CLASS_LABELS predicted_class_index of
           Inl e \<Rightarrow> Inl e
         | Inr predicted_class_label \<Rightarrow> Inr (predicted_class_label, final_confidence)))))"

text \<open>
  \<^verbatim>\<open>predict_image_class(image_batch, trained_model)\<close>. The guard of line 66 returns
  before the classifier is called; past the guard the classifier is called once,
  whatever it answers, and the handler of line 87 turns an exception of the body into
  the pair of line 89.
\<close>

definition predict_image_class ::
  "tensor option \<Rightarrow> keras_model option \<Rightarrow> world \<Rightarrow> exn + ((string \<times> real) \<times> world)" where
  "predict_image_class image_batch trained_model w =
     (case (trained_model, image_batch) of
        (Some m, Some b) \<Rightarrow>
          (let w1 = w\<lparr>predict_calls := predict_calls w @ [b]\<rparr>
           in case predict_body b m of
                Inr result \<Rightarrow> Inr (result, w1)
              | Inl e \<Rightarrow>
                  Inr ((''Error during prediction'', 0),
                       st_error (''Error during prediction: '' @ str_exn e) w1))
      | _ \<Rightarrow> Inr ((''Error'', 0), w))"

subsection \<open>Images\<close>

text \<open>
  A Pillow image as \<^verbatim>\<open>preprocess_image\<close> sees it: its mode, its size, and what its
  array interface shows to NumPy, that is the number of bands, the type of a sample
  and the samples (the numbers NumPy reads), row by row from the top, the bands of a
  pixel next to each other.
\<close>

record pil_image =
  mode :: string
  width :: nat
  height :: nat
  bands :: nat
  typestr :: dtype
  samples :: "real list"

text \<open>
  The modes of Pillow, each with the type of its samples and the number of its bands.
  NumPy reads the samples of mode \<^verbatim>\<open>1\<close> as booleans.
\<close>

definition MODES :: "(string \<times> dtype \<times> nat) list" where
  "MODES =
     [(''1'', Bool, 1), (''L'', UInt8, 1), (''P'', UInt8, 1),
      (''I'', Int32, 1), (''F'', Float32, 1),
      (''I;16'', UInt16, 1), (''I;16L'', UInt16, 1), (''I;16B'', UInt16, 1),
      (''I;16N'', UInt16, 1),
      (''LA'', UInt8, 2), (''PA'', UInt8, 2), (''La'', UInt8, 2),
      (''RGB'', UInt8, 3), (''YCbCr'', UInt8, 3), (''LAB'', UInt8, 3), (''HSV'', UInt8, 3),
      (''RGBA'', UInt8, 4), (''RGBX'', UInt8, 4), (''RGBa'', UInt8, 4), (''CMYK'', UInt8, 4)]"

text \<open>The numbers that a sample of each type can be.\<close>

definition integer_between :: "int \<Rightarrow> int \<Rightarrow> real \<Rightarrow> bool" where
  "integer_between lo hi v = (of_int \<lfloor>v\<rfloor> = v \<and> of_int lo \<le> v \<and> v \<le> of_int hi)"

fun valid_sample :: "dtype \<Rightarrow> real \<Rightarrow> bool" where
  "valid_sample Bool v = (v = 0 \<or> v = 1)"
| "valid_sample UInt8 v = integer_between 0 255 v"
| "valid_sample UInt16 v = integer_between 0 65535 v"
| "valid_sample Int32 v = integer_between (- 2147483648) 2147483647 v"
| "valid_sample Float32 v = (float32 v = v)"
| "valid_sample Float64 v = (float64 v = v)"

definition valid_image :: "pil_image \<Rightarrow> bool" where
  "valid_image img =
     (map_of MODES (mode img) = Some (typestr img, bands img) \<and>
      length (samples img) = height img * width img * bands img \<and>
      list_all (valid_sample (typestr img)) (samples img))"

text \<open>The sample of band \<open>c\<close> of the pixel in column \<open>x\<close> of row \<open>y\<close>.\<close>

definition getsample :: "pil_image \<Rightarrow> nat \<Rightarrow> nat \<Rightarrow> nat \<Rightarrow> real" where
  "getsample img x y c = samples img ! ((y * width img + x) * bands img + c)"

text \<open>
  The two methods of a Pillow image that \<^verbatim>\<open>preprocess_image\<close> calls. They belong to
  Pillow, so they are parameters: \<open>resize img (w, h)\<close> and \<open>convert img m\<close> raise or
  return a new image.
\<close>

record pil =
  resize :: "pil_image \<Rightarrow> nat \<times> nat \<Rightarrow> exn + pil_image"
  convert :: "pil_image \<Rightarrow> string \<Rightarrow> exn + pil_image"

text \<open>
  What Pillow's \<^verbatim>\<open>convert('RGB')\<close> answers on an \<^verbatim>\<open>RGBA\<close> image: the same pixels
  without their fourth sample.
\<close>

fun drop_alpha :: "'a list \<Rightarrow> 'a list" where
  "drop_alpha (r # g # b # a # rest) = r # g # b # drop_alpha rest"
| "drop_alpha _ = []"

definition rgba_to_rgb :: "pil_image \<Rightarrow> pil_image" where
  "rgba_to_rgb img = img\<lparr>mode := ''RGB'', bands := 3, samples := drop_alpha (samples img)\<rparr>"

subsection \<open>NumPy\<close>

text \<open>
  \<^verbatim>\<open>np.array(image)\<close>: height by width for an image of one band, height by width by
  bands otherwise, with the samples as its elements.
\<close>

definition np_array :: "pil_image \<Rightarrow> ndarray" where
  "np_array img =
     \<lparr>dtype = typestr img,
      shape = (if bands img = 1 then [height img, width img]
               else [height img, width img, bands img]),
      elems = samples img\<rparr>"

text \<open>
  \<^verbatim>\<open>image_array / d\<close> for a Python float \<open>d\<close>: a float32 array stays float32, an array
  of booleans, of integers or of float64 gives a float64 array; every element is
  the quotient rounded to that type.
\<close>

definition true_divide_dtype :: "dtype \<Rightarrow> dtype" where
  "true_divide_dtype t = (if t = Float32 then Float32 else Float64)"

definition round_to :: "dtype \<Rightarrow> real \<Rightarrow> real" where
  "round_to t = (if t = Float32 then float32 else float64)"

definition divide_array :: "ndarray \<Rightarrow> real \<Rightarrow> tensor" where
  "divide_array a d =
     \<lparr>dtype = true_divide_dtype (dtype a),
      shape = shape a,
      elems = map (\<lambda>v. round_to (true_divide_dtype (dtype a)) (v / d)) (elems a)\<rparr>"

text \<open>\<^verbatim>\<open>np.expand_dims(a, axis)\<close> for an axis from 0 to the number of dimensions of \<open>a\<close>.\<close>

definition expand_dims :: "ndarray \<Rightarrow> nat \<Rightarrow> ndarray" where
  "expand_dims a axis = a\<lparr>shape := take axis (shape a) @ 1 # drop axis (shape a)\<rparr>"

text \<open>The position of the element at a multi-index, in row-major order.\<close>

fun offset :: "nat list \<Rightarrow> nat list \<Rightarrow> nat \<Rightarrow> nat" where
  "offset (n # ns) (i # is) acc = offset ns is (acc * n + i)"
| "offset _ _ acc = acc"

definition item :: "ndarray \<Rightarrow> nat list \<Rightarrow> real" where
  "item a idx = elems a ! offset (shape a) idx 0"

subsection \<open>Preprocessing\<close>

text \<open>The body of the \<^verbatim>\<open>try\<close> block of \<^verbatim>\<open>preprocess_image\<close> (lines 38 to 53).\<close>

definition preprocess_body :: "pil \<Rightarrow> pil_image \<Rightarrow> exn + tensor" where
  "preprocess_body lib image_pil =
     (case resize lib image_pil (IMG_WIDTH, IMG_HEIGHT) of
        Inl e \<Rightarrow> Inl e
      | Inr image_resized \<Rightarrow>
     (case (if mode image_resized = ''RGBA'' then convert lib image_resized ''RGB''
            else Inr image_resized) of
        Inl e \<Rightarrow> Inl e
      | Inr image_resized \<Rightarrow>
     (let image_array = np_array image_resized;
          image_array = divide_array image_array 255;
          image_batch = expand_dims image_array 0
      in Inr image_batch)))"

text \<open>
  \<^verbatim>\<open>preprocess_image(image_pil)\<close>: the batch, or \<^verbatim>\<open>None\<close> after the handler of line 54
  has shown the exception.
\<close>

definition preprocess_image :: "pil \<Rightarrow> pil_image \<Rightarrow> world \<Rightarrow> exn + (tensor option \<times> world)" where
  "preprocess_image lib image_pil w =
     (case preprocess_body lib image_pil of
        Inr image_batch \<Rightarrow> Inr (Some image_batch, w)
      | Inl e \<Rightarrow> Inr (None, st_error (''Error preprocessing image: '' @ str_exn e) w))"

subsection \<open>Sample inputs\<close>

text \<open>
  A resampler that paints the whole target with the top-left pixel of its input, which
  is what every resampling filter answers on an image of one pixel, and a decoder that
  fails as Pillow does on a truncated file.
\<close>

definition flat_resize :: "pil_image \<Rightarrow> nat \<times> nat \<Rightarrow> exn + pil_image" where
  "flat_resize img wh =
     Inr \<lparr>mode = mode img, width = fst wh, height = snd wh, bands = bands img,
          typestr = typestr img,
          samples = concat (replicate (snd wh * fst wh) (take (bands img) (samples img)))\<rparr>"

definition flat_pil :: pil where
  "flat_pil = \<lparr>resize = flat_resize, convert = (\<lambda>img m. Inr (rgba_to_rgb img))\<rparr>"

definition broken_pil :: pil where
  "broken_pil =
     \<lparr>resize = (\<lambda>img wh. Inl (Exn ''image file is truncated'')),
      convert = (\<lambda>img m. Inl (Exn ''image file is truncated''))\<rparr>"

text \<open>An image of one pixel in an 8-bit mode, and what \<open>flat_resize\<close> makes of it.\<close>

definition one_pixel :: "string \<Rightarrow> real list \<Rightarrow> pil_image" where
  "one_pixel m px =
     \<lparr>mode = m, width = 1, height = 1, bands = length px, typestr = UInt8, samples = px\<rparr>"

definition resized :: "string \<Rightarrow> real list \<Rightarrow> pil_image" where
  "resized m px =
     \<lparr>mode = m, width = 224, height = 224, bands = length px, typestr = UInt8,
      samples = concat (replicate (224 * 224) px)\<rparr>"

definition w0 :: world where
  "w0 = \<lparr>st_errors = [], predict_calls = []\<rparr>"

definition b0 :: tensor where
  "b0 = \<lparr>dtype = Float64, shape = [1, 1, 1, 3], elems = [0, 0, 0]\<rparr>"

section \<open>Rounding\<close>

lemma round_even_ge: "of_int n \<le> x \<Longrightarrow> n \<le> round_even x"
proof -
  assume "of_int n \<le> x"
  then have "n \<le> \<lfloor>x\<rfloor>" by (simp add: le_floor_iff)
  then show ?thesis by (simp add: round_even_def Let_def)
qed

lemma round_even_le: "x \<le> of_int n \<Longrightarrow> round_even x \<le> n"
proof (cases "x = of_int n")
  case True
  then show ?thesis by (simp add: round_even_def)
next
  case False
  assume "x \<le> of_int n"
  with False have "x < of_int n" by simp
  then have "\<lfloor>x\<rfloor> < n" by (simp add: floor_less_iff)
  then show ?thesis by (auto simp: round_even_def Let_def)
qed


lemma exponent_eqI:
  assumes "2 powr of_int e \<le> \<bar>x\<bar>" and "\<bar>x\<bar> < 2 powr of_int (e + 1)"
  shows "exponent x = e"
proof -
  have "(0 :: real) < 2 powr of_int e" by simp
  with assms(1) have pos: "0 < \<bar>x\<bar>" by linarith
  have "of_int e \<le> log 2 \<bar>x\<bar>" using assms(1) pos by (simp add: le_log_iff)
  moreover have "log 2 \<bar>x\<bar> < of_int (e + 1)" using assms(2) pos by (simp add: log_less_iff)
  ultimately show ?thesis unfolding exponent_def by (simp add: floor_eq_iff)
qed

lemma exponent_bounds:
  assumes "x \<noteq> 0"
  shows "2 powr of_int (exponent x) \<le> \<bar>x\<bar>" and "\<bar>x\<bar> < 2 powr of_int (exponent x + 1)"
proof -
  have pos: "0 < \<bar>x\<bar>" using assms by simp
  have "of_int (exponent x) \<le> log 2 \<bar>x\<bar>" unfolding exponent_def by simp
  then show "2 powr of_int (exponent x) \<le> \<bar>x\<bar>" using pos by (simp add: le_log_iff)
  have "log 2 \<bar>x\<bar> < of_int (exponent x + 1)" unfolding exponent_def by linarith
  then show "\<bar>x\<bar> < 2 powr of_int (exponent x + 1)" using pos by (simp add: log_less_iff)
qed

lemma powr_int_mono: "(2 :: real) powr of_int a \<le> 2 powr of_int b \<longleftrightarrow> a \<le> b"
  by simp

lemma powr_int_strict: "(2 :: real) powr of_int a < 2 powr of_int b \<longleftrightarrow> a < b"
  by simp

lemma ulp_pos: "0 < ulp prec x"
  by (simp add: ulp_def)

lemma round_float_ge_grid:
  assumes "x \<noteq> 0" and "c = of_int m * ulp prec x" and "c \<le> x"
  shows "c \<le> round_float prec x"
proof -
  from assms(2,3) have "of_int m \<le> x / ulp prec x"
    using ulp_pos [of prec x] by (simp add: pos_le_divide_eq)
  then have "m \<le> round_even (x / ulp prec x)" by (rule round_even_ge)
  then have "of_int m * ulp prec x \<le> of_int (round_even (x / ulp prec x)) * ulp prec x"
    using ulp_pos [of prec x] by (simp add: mult_right_mono)
  then show ?thesis using assms(1,2) by (simp add: round_float_def)
qed

lemma round_float_le_grid:
  assumes "x \<noteq> 0" and "c = of_int m * ulp prec x" and "x \<le> c"
  shows "round_float prec x \<le> c"
proof -
  from assms(2,3) have "x / ulp prec x \<le> of_int m"
    using ulp_pos [of prec x] by (simp add: pos_divide_le_eq)
  then have "round_even (x / ulp prec x) \<le> m" by (rule round_even_le)
  then have "of_int (round_even (x / ulp prec x)) * ulp prec x \<le> of_int m * ulp prec x"
    using ulp_pos [of prec x] by (simp add: mult_right_mono)
  then show ?thesis using assms(1,2) by (simp add: round_float_def)
qed

lemma power_on_grid:
  assumes "exponent x - int prec + 1 \<le> k"
  shows "\<exists>m. (2 :: real) powr of_int k = of_int m * ulp prec x"
proof -
  define d where "d = nat (k - (exponent x - int prec + 1))"
  have k: "k = int d + (exponent x - int prec + 1)" using assms by (simp add: d_def)
  have "(2 :: real) powr of_int k = 2 powr of_int (int d) * ulp prec x"
    unfolding ulp_def by (subst k) (simp only: of_int_add powr_add)
  also have "(2 :: real) powr of_int (int d) = of_int (2 ^ d)"
    by (simp add: powr_realpow)
  finally show ?thesis by blast
qed

lemma round_float_unit:
  assumes "0 \<le> x" and "x \<le> 1" and "0 < prec"
  shows "0 \<le> round_float prec x \<and> round_float prec x \<le> 1"
proof (cases "x = 0")
  case True
  then show ?thesis by (simp add: round_float_def)
next
  case False
  with assms(1) have pos: "0 < x" by simp
  have "2 powr of_int (exponent x) \<le> \<bar>x\<bar>" using False by (rule exponent_bounds)
  with pos assms(2) have "(2 :: real) powr of_int (exponent x) \<le> 2 powr of_int 0" by simp
  then have e: "exponent x \<le> 0" by (simp only: powr_int_mono)
  have "0 = of_int 0 * ulp prec x" by simp
  from round_float_ge_grid [OF False this assms(1)] have lo: "0 \<le> round_float prec x" .
  from e assms(3) have "exponent x - int prec + 1 \<le> 0" by simp
  from power_on_grid [OF this] obtain m where
    "(2 :: real) powr of_int 0 = of_int m * ulp prec x" by auto
  then have "1 = of_int m * ulp prec x" by simp
  from round_float_le_grid [OF False this assms(2)] lo show ?thesis by simp
qed



text \<open>Rounding in the binade from \<open>1 / 2 ^ j\<close> to \<open>2 / 2 ^ j\<close>.\<close>

lemma round_float_binade:
  assumes "1 / 2 ^ j \<le> x" and "x < 2 / 2 ^ j" and "0 < prec"
  shows "round_float prec x = of_int (round_even (x * 2 ^ (j + prec - 1))) / 2 ^ (j + prec - 1)"
proof -
  have pj: "(0 :: real) < 1 / 2 ^ j" by simp
  with assms(1) have pos: "0 < x" by linarith
  have lo: "(2 :: real) powr of_int (- int j) = 1 / 2 ^ j"
    by (simp add: powr_minus powr_realpow inverse_eq_divide)
  have "(2 :: real) powr of_int (- int j + 1) = 2 powr of_int (- int j) * 2 powr 1"
    by (simp only: of_int_add powr_add of_int_1)
  with lo have hi: "(2 :: real) powr of_int (- int j + 1) = 2 / 2 ^ j" by simp
  have e: "exponent x = - int j"
    using assms(1,2) pos lo hi by (intro exponent_eqI) simp_all
  have "- int j - int prec + 1 = - int (j + prec - 1)" using assms(3) by simp
  then have "ulp prec x = 2 powr of_int (- int (j + prec - 1))" by (simp add: ulp_def e)
  also have "\<dots> = 1 / 2 ^ (j + prec - 1)"
    by (simp add: powr_minus powr_realpow inverse_eq_divide)
  finally have u: "ulp prec x = 1 / 2 ^ (j + prec - 1)" .
  from pos show ?thesis by (simp add: round_float_def u)
qed



section \<open>Properties of the decision procedure\<close>

subsection \<open>The substring test\<close>

lemma str_in_iff: "str_in s t \<longleftrightarrow> (\<exists>a b. t = a @ s @ b)"
proof (induction t)
  case Nil
  then show ?case by auto
next
  case (Cons c cs)
  have here: "take (length s) (c # cs) = s \<longleftrightarrow> (\<exists>b. c # cs = s @ b)"
    by (metis append_eq_conv_conj)
  have "(\<exists>a b. c # cs = a @ s @ b) \<longleftrightarrow> (\<exists>b. c # cs = s @ b) \<or> (\<exists>a b. cs = a @ s @ b)"
    (is "?L \<longleftrightarrow> ?R")
  proof
    assume ?L
    then obtain a b where ab: "c # cs = a @ s @ b" by blast
    show ?R
    proof (cases a)
      case Nil
      with ab show ?thesis by auto
    next
      case (Cons x a')
      with ab have "cs = a' @ s @ b" by simp
      then show ?thesis by blast
    qed
  next
    assume ?R
    then show ?L
    proof
      assume "\<exists>b. c # cs = s @ b"
      then obtain b where "c # cs = [] @ s @ b" by auto
      then show ?L by blast
    next
      assume "\<exists>a b. cs = a @ s @ b"
      then obtain a b where "c # cs = (c # a) @ s @ b" by auto
      then show ?L by blast
    qed
  qed
  with here show ?case using Cons.IH by simp
qed

subsection \<open>The body of the try block\<close>

lemma predict_body_ai:
  "m b = Inr ((p # row) # rows) \<Longrightarrow> PREDICTION_THRESHOLD \<le> p \<Longrightarrow>
   predict_body b m = Inr (''AI-Generated Image'', p)"
  by (simp add: predict_body_def getitem0_def dict_getitem_def CLASS_LABELS_def)


lemma predict_body_raises:
  "m b = Inl e \<Longrightarrow> predict_body b m = Inl e"
  by (simp add: predict_body_def)

lemma predict_body_cases:
  "(\<exists>e. predict_body b m = Inl e) \<or>
   (\<exists>c. predict_body b m = Inr (''AI-Generated Image'', c)) \<or>
   (\<exists>c. predict_body b m = Inr (''Authentic (Real) Image'', c))"
  by (simp add: predict_body_def getitem0_def dict_getitem_def CLASS_LABELS_def
      split: sum.split list.split)


subsection \<open>The claims\<close>

text \<open>
  C1. When the classifier answers a probability \<open>p\<close> that is at least the threshold
  (the threshold itself included), \<open>predict_image_class\<close> returns the label
  \<^verbatim>\<open>AI-Generated Image\<close> with confidence \<open>p\<close>; the classifier has been called once and
  nothing has been shown as an error.
\<close>

theorem predict_image_class_ai_generated:
  assumes "m b = Inr ((p # row) # rows)" and "PREDICTION_THRESHOLD \<le> p"
  shows "predict_image_class (Some b) (Some m) w =
           Inr ((''AI-Generated Image'', p), w\<lparr>predict_calls := predict_calls w @ [b]\<rparr>)"
  using assms by (simp add: predict_image_class_def predict_body_ai)

theorem predict_image_class_ai_generated_witness:
  "PREDICTION_THRESHOLD \<le> 1 / 2 \<and>
   predict_image_class (Some b0) (Some (\<lambda>_. Inr [[1 / 2]])) w0 =
     Inr ((''AI-Generated Image'', 1 / 2), w0\<lparr>predict_calls := predict_calls w0 @ [b0]\<rparr>)"
  using predict_image_class_ai_generated [of "\<lambda>_. Inr [[1 / 2]]" b0 "1 / 2" "[]" "[]" w0]
  by (simp add: PREDICTION_THRESHOLD_def)




text \<open>
  C4. When the model or the batch is \<^verbatim>\<open>None\<close>, \<open>predict_image_class\<close> returns the label
  \<^verbatim>\<open>Error\<close> with confidence 0: it returns (no exception leaves it), and the world is
  unchanged, so the classifier has not been called and nothing has been shown.
\<close>

theorem predict_image_class_unavailable:
  assumes "trained_model = None \<or> image_batch = None"
  shows "predict_image_class image_batch trained_model w = Inr ((''Error'', 0), w)"
  using assms by (auto simp: predict_image_class_def split: option.split)

theorem predict_image_class_unavailable_witness:
  "predict_image_class (Some b0) None w0 = Inr ((''Error'', 0), w0) \<and>
   predict_image_class None (Some (\<lambda>_. Inr [[1]])) w0 = Inr ((''Error'', 0), w0)"
  using predict_image_class_unavailable [of None "Some b0" w0]
    predict_image_class_unavailable [of "Some (\<lambda>_. Inr [[1]])" None w0]
  by simp

text \<open>
  C5. When the classifier raises an exception \<open>e\<close> during the forward pass,
  \<open>predict_image_class\<close> returns the label \<^verbatim>\<open>Error during prediction\<close> with confidence
  0, after showing the exception; the outcome is a return (\<open>Inr\<close>), not the exception.
\<close>

theorem predict_image_class_catches:
  assumes "m b = Inl e"
  shows "predict_image_class (Some b) (Some m) w =
           Inr ((''Error during prediction'', 0),
                st_error (''Error during prediction: '' @ str_exn e)
                  (w\<lparr>predict_calls := predict_calls w @ [b]\<rparr>))"
  using assms by (simp add: predict_image_class_def predict_body_raises)

theorem predict_image_class_catches_witness:
  "predict_image_class (Some b0) (Some (\<lambda>_. Inl (Exn ''incompatible shape''))) w0 =
     Inr ((''Error during prediction'', 0),
          \<lparr>st_errors = [''Error during prediction: incompatible shape''],
           predict_calls = [b0]\<rparr>)"
  using predict_image_class_catches [of "\<lambda>_. Inl (Exn ''incompatible shape'')" b0
      "Exn ''incompatible shape''" w0]
  by (simp add: st_error_def w0_def)




text \<open>
  C10. Neither class label contains \<^verbatim>\<open>Error\<close> and both failure labels do; and on every
  input the label that \<open>predict_image_class\<close> returns contains \<^verbatim>\<open>Error\<close> exactly when
  the call failed, that is when the model or the batch was \<^verbatim>\<open>None\<close> or the body of the
  try block raised.
\<close>

theorem error_label_test_exact:
  "\<not> str_in ''Error'' ''Authentic (Real) Image'' \<and>
   \<not> str_in ''Error'' ''AI-Generated Image'' \<and>
   CLASS_LABELS 0 = Some ''Authentic (Real) Image'' \<and>
   CLASS_LABELS 1 = Some ''AI-Generated Image'' \<and>
   str_in ''Error'' ''Error'' \<and>
   str_in ''Error'' ''Error during prediction'' \<and>
   (\<exists>label c w'.
      predict_image_class image_batch trained_model w = Inr ((label, c), w') \<and>
      (str_in ''Error'' label \<longleftrightarrow>
         trained_model = None \<or> image_batch = None \<or>
         (\<exists>m b e. trained_model = Some m \<and> image_batch = Some b \<and> predict_body b m = Inl e)))"
proof -
  have labels:
    "\<not> str_in ''Error'' ''Authentic (Real) Image''"
    "\<not> str_in ''Error'' ''AI-Generated Image''"
    "str_in ''Error'' ''Error''"
    "str_in ''Error'' ''Error during prediction''"
    by simp_all
  have table: "CLASS_LABELS 0 = Some ''Authentic (Real) Image''"
    "CLASS_LABELS 1 = Some ''AI-Generated Image''"
    by (simp_all add: CLASS_LABELS_def)
  have run: "\<exists>label c w'.
      predict_image_class image_batch trained_model w = Inr ((label, c), w') \<and>
      (str_in ''Error'' label \<longleftrightarrow>
         trained_model = None \<or> image_batch = None \<or>
         (\<exists>m b e. trained_model = Some m \<and> image_batch = Some b \<and> predict_body b m = Inl e))"
  proof (cases trained_model)
    case None
    then show ?thesis using labels(3) by (simp add: predict_image_class_def)
  next
    case (Some m)
    note model = this
    show ?thesis
    proof (cases image_batch)
      case None
      then show ?thesis using labels(3) model by (simp add: predict_image_class_def)
    next
      case (Some b)
      from predict_body_cases [of b m] show ?thesis
      proof (elim disjE exE)
        fix e assume "predict_body b m = Inl e"
        then show ?thesis using labels(4) model Some
          by (simp add: predict_image_class_def)
      next
        fix c assume "predict_body b m = Inr (''AI-Generated Image'', c)"
        then show ?thesis using labels(2) model Some
          by (simp add: predict_image_class_def)
      next
        fix c assume "predict_body b m = Inr (''Authentic (Real) Image'', c)"
        then show ?thesis using labels(1) model Some
          by (simp add: predict_image_class_def)
      qed
    qed
  qed
  from labels table run show ?thesis by blast
qed

section \<open>Properties of preprocessing\<close>

subsection \<open>Dropping the alpha samples, bytes as fractions, the batch of a three-band image\<close>

lemma length_drop_alpha: "length (drop_alpha xs) = 3 * (length xs div 4)"
  by (induction xs rule: drop_alpha.induct) auto

lemma nth_drop_alpha:
  "i < length xs div 4 \<Longrightarrow> c < 3 \<Longrightarrow> drop_alpha xs ! (3 * i + c) = xs ! (4 * i + c)"
proof (induction xs arbitrary: i rule: drop_alpha.induct)
  case (1 r g b a rest)
  show ?case
  proof (cases i)
    case 0
    from \<open>c < 3\<close> consider "c = 0" | "c = 1" | "c = 2" by linarith
    then show ?thesis using 0 by cases simp_all
  next
    case (Suc j)
    with "1.prems" have j: "j < length rest div 4" by simp
    have l: "3 * i + c = Suc (Suc (Suc (3 * j + c)))" using Suc by simp
    have r: "4 * i + c = Suc (Suc (Suc (Suc (4 * j + c))))" using Suc by simp
    have "drop_alpha (r # g # b # a # rest) ! (3 * i + c) = drop_alpha rest ! (3 * j + c)"
      unfolding l by simp
    also have "\<dots> = rest ! (4 * j + c)" using "1.IH" [OF j "1.prems"(2)] .
    also have "\<dots> = (r # g # b # a # rest) ! (4 * i + c)"
      unfolding r by simp
    finally show ?thesis .
  qed
qed simp_all

lemma set_drop_alpha: "set (drop_alpha xs) \<subseteq> set xs"
  by (induction xs rule: drop_alpha.induct) auto

lemma byte_unit:
  assumes "valid_sample UInt8 v"
  shows "0 \<le> float64 (v / 255) \<and> float64 (v / 255) \<le> 1"
proof -
  from assms have "0 \<le> v / 255" "v / 255 \<le> 1" by (simp_all add: integer_between_def)
  then show ?thesis unfolding float64_def by (intro round_float_unit) simp_all
qed

lemma valid_rgb:
  assumes "valid_image r" and "mode r = ''RGB''"
  shows "typestr r = UInt8" and "bands r = 3"
  using assms by (simp_all add: valid_image_def MODES_def)

lemma valid_rgba:
  assumes "valid_image r" and "mode r = ''RGBA''"
  shows "typestr r = UInt8" and "bands r = 4"
  using assms by (simp_all add: valid_image_def MODES_def)

lemma valid_rgba_to_rgb:
  assumes "valid_image r" and "mode r = ''RGBA''"
  shows "valid_image (rgba_to_rgb r)"
proof -
  note t = valid_rgba [OF assms]
  with assms(1) have "length (samples r) = height r * width r * 4" by (simp add: valid_image_def)
  then have len: "length (drop_alpha (samples r)) = height r * width r * 3"
    by (simp add: length_drop_alpha)
  from assms(1) t have "list_all (valid_sample UInt8) (samples r)" by (simp add: valid_image_def)
  with set_drop_alpha [of "samples r"] have "list_all (valid_sample UInt8) (drop_alpha (samples r))"
    by (auto simp: list_all_iff)
  with len t show ?thesis by (simp add: valid_image_def rgba_to_rgb_def MODES_def)
qed

lemma preprocess_body_plain:
  assumes "resize lib img (IMG_WIDTH, IMG_HEIGHT) = Inr r" and "mode r \<noteq> ''RGBA''"
  shows "preprocess_body lib img = Inr (expand_dims (divide_array (np_array r) 255) 0)"
  using assms by (simp add: preprocess_body_def)

lemma preprocess_body_alpha:
  assumes "resize lib img (IMG_WIDTH, IMG_HEIGHT) = Inr r" and "mode r = ''RGBA''"
    and "convert lib r ''RGB'' = Inr c"
  shows "preprocess_body lib img = Inr (expand_dims (divide_array (np_array c) 255) 0)"
  using assms by (simp add: preprocess_body_def)

lemma batch_of_three_bands:
  assumes "valid_image q" and "typestr q = UInt8" and "bands q = 3"
    and "width q = IMG_WIDTH" and "height q = IMG_HEIGHT"
  defines "batch \<equiv> expand_dims (divide_array (np_array q) 255) 0"
  shows "shape batch = [1, 224, 224, 3]"
    and "length (elems batch) = 1 * 224 * 224 * 3"
    and "\<forall>v \<in> set (elems batch). 0 \<le> v \<and> v \<le> 1"
    and "y < 224 \<Longrightarrow> x < 224 \<Longrightarrow> c < 3 \<Longrightarrow>
         valid_sample UInt8 (getsample q x y c) \<and>
         item batch [0, y, x, c] = float64 (getsample q x y c / 255)"
proof -
  have el: "elems batch = map (\<lambda>v. float64 (v / 255)) (samples q)"
    using assms(2)
    by (simp add: batch_def expand_dims_def divide_array_def np_array_def
        true_divide_dtype_def round_to_def)
  have all: "\<forall>v \<in> set (samples q). valid_sample UInt8 v"
    using assms(1,2) by (simp add: valid_image_def list_all_iff)
  show sh: "shape batch = [1, 224, 224, 3]"
    using assms(3-5)
    by (simp add: batch_def expand_dims_def divide_array_def np_array_def IMG_WIDTH_def
        IMG_HEIGHT_def)
  show "length (elems batch) = 1 * 224 * 224 * 3"
    using assms(1,3-5) by (simp add: el valid_image_def IMG_WIDTH_def IMG_HEIGHT_def)
  show "\<forall>v \<in> set (elems batch). 0 \<le> v \<and> v \<le> 1"
    using all byte_unit by (auto simp: el)
  assume "y < 224" "x < 224" "c < 3"
  then have i: "(y * 224 + x) * 3 + c < length (samples q)"
    using assms(1,3-5) by (simp add: valid_image_def IMG_WIDTH_def IMG_HEIGHT_def)
  then have "samples q ! ((y * 224 + x) * 3 + c) \<in> set (samples q)" by (rule nth_mem)
  with all have "valid_sample UInt8 (samples q ! ((y * 224 + x) * 3 + c))" by blast
  moreover have "item batch [0, y, x, c] = float64 (samples q ! ((y * 224 + x) * 3 + c) / 255)"
    using i by (simp add: item_def el sh)
  ultimately show "valid_sample UInt8 (getsample q x y c) \<and>
         item batch [0, y, x, c] = float64 (getsample q x y c / 255)"
    using assms(3-5) by (simp add: getsample_def IMG_WIDTH_def)
qed

lemma length_flat: "length (concat (replicate n xs)) = n * length xs"
  by (induction n) auto

lemma all_flat: "list_all P xs \<Longrightarrow> list_all P (concat (replicate n xs))"
  by (induction n) auto

lemma nth_flat: "0 < n \<Longrightarrow> i < length xs \<Longrightarrow> concat (replicate n xs) ! i = xs ! i"
  by (cases n) (simp_all add: nth_append)

lemma getsample_rgba_to_rgb:
  assumes "valid_image r" and "mode r = ''RGBA''" and "x < width r" and "y < height r" and "c < 3"
  shows "getsample (rgba_to_rgb r) x y c = getsample r x y c"
proof -
  note b = valid_rgba(2) [OF assms(1,2)]
  with assms(1) have len: "length (samples r) div 4 = height r * width r"
    by (simp add: valid_image_def)
  have "y * width r + x < Suc y * width r" using assms(3) by simp
  also have "\<dots> \<le> height r * width r" using assms(4) by (simp only: mult_le_mono1 Suc_leI)
  finally have i: "y * width r + x < length (samples r) div 4" using len by simp
  have "drop_alpha (samples r) ! (3 * (y * width r + x) + c) = samples r ! (4 * (y * width r + x) + c)"
    using i assms(5) by (rule nth_drop_alpha)
  then show ?thesis using b by (simp add: getsample_def rgba_to_rgb_def mult.commute)
qed

lemma valid_resized:
  "map_of MODES m = Some (UInt8, length px) \<Longrightarrow> list_all (valid_sample UInt8) px \<Longrightarrow>
   valid_image (resized m px)"
  by (simp add: valid_image_def resized_def length_flat all_flat)

lemma flat_resize_one_pixel:
  "resize flat_pil (one_pixel m px) (IMG_WIDTH, IMG_HEIGHT) = Inr (resized m px)"
  by (simp add: flat_pil_def flat_resize_def one_pixel_def resized_def IMG_WIDTH_def
      IMG_HEIGHT_def)

lemma preprocess_image_returns:
  "\<exists>t w'. preprocess_image lib image_pil w = Inr (t, w')"
  by (simp add: preprocess_image_def split: sum.split)

subsection \<open>The claims\<close>

text \<open>
  C3, as amended. For an input image of mode \<^verbatim>\<open>RGB\<close> or \<^verbatim>\<open>RGBA\<close>, of any size, that Pillow
  resizes to an image \<open>r\<close> of the requested size and of the same mode (and, for \<^verbatim>\<open>RGBA\<close>,
  converts by dropping the alpha samples), \<open>preprocess_image\<close> returns a batch of shape
  (1, 224, 224, 3) whose element at (0, y, x, c) is the float64 nearest to the quotient
  by 255 of the byte of channel \<open>c\<close> of the pixel (x, y) of \<open>r\<close>; every element lies
  between 0 and 1.
\<close>

theorem preprocess_image_rgb:
  assumes "mode image_pil = ''RGB'' \<or> mode image_pil = ''RGBA''"
    and "resize lib image_pil (IMG_WIDTH, IMG_HEIGHT) = Inr r"
    and "valid_image r" and "mode r = mode image_pil"
    and "width r = IMG_WIDTH" and "height r = IMG_HEIGHT"
    and "mode r = ''RGBA'' \<longrightarrow> convert lib r ''RGB'' = Inr (rgba_to_rgb r)"
  shows "\<exists>batch.
           preprocess_image lib image_pil w = Inr (Some batch, w) \<and>
           dtype batch = Float64 \<and>
           shape batch = [1, 224, 224, 3] \<and>
           length (elems batch) = 1 * 224 * 224 * 3 \<and>
           (\<forall>y<224. \<forall>x<224. \<forall>c<3.
              integer_between 0 255 (getsample r x y c) \<and>
              item batch [0, y, x, c] = float64 (getsample r x y c / 255)) \<and>
           (\<forall>v \<in> set (elems batch). 0 \<le> v \<and> v \<le> 1)"
proof (cases "mode r = ''RGBA''")
  case False
  with assms(1,4) have rgb: "mode r = ''RGB''" by simp
  note t = valid_rgb [OF assms(3) rgb]
  let ?batch = "expand_dims (divide_array (np_array r) 255) 0"
  have run: "preprocess_image lib image_pil w = Inr (Some ?batch, w)"
    using preprocess_body_plain [OF assms(2) False] by (simp add: preprocess_image_def)
  have dt: "dtype ?batch = Float64"
    using t(1) by (simp add: expand_dims_def divide_array_def np_array_def true_divide_dtype_def)
  note facts = batch_of_three_bands [OF assms(3) t assms(5,6)]
  have "integer_between 0 255 (getsample r x y c) \<and>
      item ?batch [0, y, x, c] = float64 (getsample r x y c / 255)"
    if "y < 224" "x < 224" "c < 3" for y x c
    using facts(4) [OF that] by simp
  with run dt facts(1-3) show ?thesis by blast
next
  case True
  let ?q = "rgba_to_rgb r"
  let ?batch = "expand_dims (divide_array (np_array ?q) 255) 0"
  from True assms(7) have cv: "convert lib r ''RGB'' = Inr ?q" by simp
  have run: "preprocess_image lib image_pil w = Inr (Some ?batch, w)"
    using preprocess_body_alpha [OF assms(2) True cv] by (simp add: preprocess_image_def)
  have q: "valid_image ?q" using assms(3) True by (rule valid_rgba_to_rgb)
  have qt: "typestr ?q = UInt8" using valid_rgba(1) [OF assms(3) True]
    by (simp add: rgba_to_rgb_def)
  have qb: "bands ?q = 3" and qw: "width ?q = IMG_WIDTH" and qh: "height ?q = IMG_HEIGHT"
    using assms(5,6) by (simp_all add: rgba_to_rgb_def)
  have dt: "dtype ?batch = Float64"
    using qt by (simp add: expand_dims_def divide_array_def np_array_def true_divide_dtype_def)
  note facts = batch_of_three_bands [OF q qt qb qw qh]
  have "integer_between 0 255 (getsample r x y c) \<and>
      item ?batch [0, y, x, c] = float64 (getsample r x y c / 255)"
    if "y < 224" "x < 224" "c < 3" for y x c
  proof -
    have "getsample ?q x y c = getsample r x y c"
      using assms(3) True that assms(5,6)
      by (intro getsample_rgba_to_rgb) (simp_all add: IMG_WIDTH_def IMG_HEIGHT_def)
    with facts(4) [OF that] show ?thesis by simp
  qed
  with run dt facts(1-3) show ?thesis by blast
qed

theorem preprocess_image_rgb_witness:
  "(\<exists>batch. preprocess_image flat_pil (one_pixel ''RGB'' [10, 20, 30]) w0 = Inr (Some batch, w0) \<and>
      shape batch = [1, 224, 224, 3]) \<and>
   (\<exists>batch. preprocess_image flat_pil (one_pixel ''RGBA'' [10, 20, 30, 255]) w0 = Inr (Some batch, w0) \<and>
      shape batch = [1, 224, 224, 3])"
proof -
  let ?i3 = "one_pixel ''RGB'' [10, 20, 30]"
  let ?r3 = "resized ''RGB'' [10, 20, 30]"
  let ?i4 = "one_pixel ''RGBA'' [10, 20, 30, 255]"
  let ?r4 = "resized ''RGBA'' [10, 20, 30, 255]"
  have v3: "valid_image ?r3"
    by (rule valid_resized) (simp_all add: MODES_def integer_between_def)
  have v4: "valid_image ?r4"
    by (rule valid_resized) (simp_all add: MODES_def integer_between_def)
  have c4: "mode ?r4 = ''RGBA'' \<longrightarrow> convert flat_pil ?r4 ''RGB'' = Inr (rgba_to_rgb ?r4)"
    by (simp add: flat_pil_def)
  have a: "\<exists>batch. preprocess_image flat_pil ?i3 w0 = Inr (Some batch, w0) \<and>
      shape batch = [1, 224, 224, 3]"
    using preprocess_image_rgb [of ?i3 flat_pil ?r3 w0, OF _ flat_resize_one_pixel v3]
    by (simp add: one_pixel_def resized_def IMG_WIDTH_def IMG_HEIGHT_def) blast
  have b: "\<exists>batch. preprocess_image flat_pil ?i4 w0 = Inr (Some batch, w0) \<and>
      shape batch = [1, 224, 224, 3]"
    using preprocess_image_rgb [of ?i4 flat_pil ?r4 w0, OF _ flat_resize_one_pixel v4 _ _ _ c4]
    by (simp add: one_pixel_def resized_def IMG_WIDTH_def IMG_HEIGHT_def) blast
  from a b show ?thesis by (rule conjI)
qed

text \<open>
  C3, as stated, fails on an \<^verbatim>\<open>RGB\<close> image whose red byte is 10: the element of the batch
  is the float64 nearest to 10 / 255, which is not 10 / 255.
\<close>

theorem preprocess_image_rgb_counterexample:
  "resize flat_pil (one_pixel ''RGB'' [10, 20, 30]) (IMG_WIDTH, IMG_HEIGHT) =
     Inr (resized ''RGB'' [10, 20, 30]) \<and>
   preprocess_image flat_pil (one_pixel ''RGB'' [10, 20, 30]) w0 =
     Inr (Some (expand_dims (divide_array (np_array (resized ''RGB'' [10, 20, 30])) 255) 0), w0) \<and>
   getsample (resized ''RGB'' [10, 20, 30]) 0 0 0 = 10 \<and>
   item (expand_dims (divide_array (np_array (resized ''RGB'' [10, 20, 30])) 255) 0) [0, 0, 0, 0] =
     5651576002974740 / 2 ^ 57 \<and>
   (5651576002974740 / 2 ^ 57 :: real) \<noteq> 10 / 255"
proof -
  have f: "float64 (10 / 255) = 5651576002974740 / 2 ^ 57"
    using round_float_binade [of 5 "10 / 255" 53] by (simp add: float64_def round_even_def)
  have s0: "samples (resized ''RGB'' [10, 20, 30]) ! 0 = 10"
    by (simp add: resized_def nth_flat)
  have l: "0 < length (samples (resized ''RGB'' [10, 20, 30]))"
    by (simp add: resized_def length_flat)
  have run: "preprocess_image flat_pil (one_pixel ''RGB'' [10, 20, 30]) w0 =
     Inr (Some (expand_dims (divide_array (np_array (resized ''RGB'' [10, 20, 30])) 255) 0), w0)"
    using preprocess_body_plain [OF flat_resize_one_pixel, of "''RGB''" "[10, 20, 30]"]
    by (simp add: preprocess_image_def resized_def)
  have g: "getsample (resized ''RGB'' [10, 20, 30]) 0 0 0 = 10"
    using s0 by (simp add: getsample_def)
  have i: "item (expand_dims (divide_array (np_array (resized ''RGB'' [10, 20, 30])) 255) 0)
      [0, 0, 0, 0] = float64 (10 / 255)"
    using l s0
    by (simp add: item_def expand_dims_def divide_array_def np_array_def true_divide_dtype_def
        round_to_def resized_def)
  have n: "(5651576002974740 / 2 ^ 57 :: real) \<noteq> 10 / 255" by simp
  from flat_resize_one_pixel run g i [unfolded f] n show ?thesis by (intro conjI)
qed

text \<open>
  C6. \<open>preprocess_image\<close> always returns: no exception leaves it. When \<^verbatim>\<open>resize\<close> (which
  also decodes the file) raises, or \<^verbatim>\<open>convert\<close> raises on the resized \<^verbatim>\<open>RGBA\<close> image,
  it shows the exception and returns \<^verbatim>\<open>None\<close>.
\<close>

theorem preprocess_image_catches:
  "(\<exists>t w'. preprocess_image lib image_pil w = Inr (t, w')) \<and>
   (resize lib image_pil (IMG_WIDTH, IMG_HEIGHT) = Inl e \<or>
    (\<exists>r. resize lib image_pil (IMG_WIDTH, IMG_HEIGHT) = Inr r \<and> mode r = ''RGBA'' \<and>
         convert lib r ''RGB'' = Inl e) \<longrightarrow>
    preprocess_image lib image_pil w =
      Inr (None, st_error (''Error preprocessing image: '' @ str_exn e) w))"
proof (intro conjI impI)
  show "\<exists>t w'. preprocess_image lib image_pil w = Inr (t, w')"
    by (rule preprocess_image_returns)
next
  assume "resize lib image_pil (IMG_WIDTH, IMG_HEIGHT) = Inl e \<or>
    (\<exists>r. resize lib image_pil (IMG_WIDTH, IMG_HEIGHT) = Inr r \<and> mode r = ''RGBA'' \<and>
         convert lib r ''RGB'' = Inl e)"
  then have "preprocess_body lib image_pil = Inl e"
    by (auto simp: preprocess_body_def)
  then show "preprocess_image lib image_pil w =
      Inr (None, st_error (''Error preprocessing image: '' @ str_exn e) w)"
    by (simp add: preprocess_image_def)
qed

theorem preprocess_image_catches_witness:
  "preprocess_image broken_pil (one_pixel ''RGB'' [10, 20, 30]) w0 =
     Inr (None, \<lparr>st_errors = [''Error preprocessing image: image file is truncated''],
                 predict_calls = []\<rparr>) \<and>
   preprocess_image (flat_pil\<lparr>convert := convert broken_pil\<rparr>)
       (one_pixel ''RGBA'' [10, 20, 30, 255]) w0 =
     Inr (None, \<lparr>st_errors = [''Error preprocessing image: image file is truncated''],
                 predict_calls = []\<rparr>)"
  using preprocess_image_catches [of broken_pil "one_pixel ''RGB'' [10, 20, 30]" w0
      "Exn ''image file is truncated''"]
    preprocess_image_catches [of "flat_pil\<lparr>convert := convert broken_pil\<rparr>"
      "one_pixel ''RGBA'' [10, 20, 30, 255]" w0 "Exn ''image file is truncated''"]
  by (simp add: broken_pil_def flat_pil_def flat_resize_def one_pixel_def st_error_def w0_def)

text \<open>
  C9, as amended. For an input image whose mode is neither \<^verbatim>\<open>RGB\<close> nor \<^verbatim>\<open>RGBA\<close> and
  that Pillow resizes to an image \<open>r\<close> of the requested size and of the same mode,
  \<open>preprocess_image\<close> returns a batch and never calls \<^verbatim>\<open>convert\<close> (the outcome is the same
  whatever \<^verbatim>\<open>convert\<close> would do). The shape is (1, 224, 224) for an image of one band and
  (1, 224, 224, n) for an image of n bands, so it is (1, 224, 224, 3) exactly when the
  image has three bands.
\<close>

theorem preprocess_image_other_modes:
  assumes "mode image_pil \<noteq> ''RGB''" and "mode image_pil \<noteq> ''RGBA''"
    and "resize lib image_pil (IMG_WIDTH, IMG_HEIGHT) = Inr r"
    and "mode r = mode image_pil"
    and "width r = IMG_WIDTH" and "height r = IMG_HEIGHT"
  shows "\<exists>batch.
           (\<forall>cv. preprocess_image (lib\<lparr>convert := cv\<rparr>) image_pil w = Inr (Some batch, w)) \<and>
           preprocess_image lib image_pil w = Inr (Some batch, w) \<and>
           shape batch = (if bands r = 1 then [1, 224, 224] else [1, 224, 224, bands r]) \<and>
           (shape batch = [1, 224, 224, 3] \<longleftrightarrow> bands r = 3)"
proof -
  let ?batch = "expand_dims (divide_array (np_array r) 255) 0"
  from assms(2,4) have na: "mode r \<noteq> ''RGBA''" by simp
  have "preprocess_image (lib\<lparr>convert := cv\<rparr>) image_pil w = Inr (Some ?batch, w)" for cv
    using preprocess_body_plain [of "lib\<lparr>convert := cv\<rparr>" image_pil r] assms(3) na
    by (simp add: preprocess_image_def)
  moreover have "preprocess_image lib image_pil w = Inr (Some ?batch, w)"
    using preprocess_body_plain [OF assms(3) na] by (simp add: preprocess_image_def)
  moreover have "shape ?batch = (if bands r = 1 then [1, 224, 224] else [1, 224, 224, bands r])"
    using assms(5,6)
    by (simp add: expand_dims_def divide_array_def np_array_def IMG_WIDTH_def IMG_HEIGHT_def)
  ultimately show ?thesis by (intro exI [of _ ?batch]) auto
qed

theorem preprocess_image_other_modes_witness:
  "\<exists>batch. preprocess_image flat_pil (one_pixel ''L'' [200]) w0 = Inr (Some batch, w0) \<and>
     shape batch = [1, 224, 224]"
  using preprocess_image_other_modes [of "one_pixel ''L'' [200]" flat_pil
      "resized ''L'' [200]" w0, OF _ _ flat_resize_one_pixel]
  by (simp add: one_pixel_def resized_def IMG_WIDTH_def IMG_HEIGHT_def) blast

text \<open>
  C9, as stated, fails on a \<^verbatim>\<open>YCbCr\<close> image: its mode is neither \<^verbatim>\<open>RGB\<close> nor \<^verbatim>\<open>RGBA\<close>,
  no conversion takes place, and the batch has the shape (1, 224, 224, 3).
\<close>

theorem preprocess_image_three_band_counterexample:
  "mode (one_pixel ''YCbCr'' [16, 128, 128]) \<noteq> ''RGB'' \<and>
   mode (one_pixel ''YCbCr'' [16, 128, 128]) \<noteq> ''RGBA'' \<and>
   valid_image (one_pixel ''YCbCr'' [16, 128, 128]) \<and>
   resize flat_pil (one_pixel ''YCbCr'' [16, 128, 128]) (IMG_WIDTH, IMG_HEIGHT) =
     Inr (resized ''YCbCr'' [16, 128, 128]) \<and>
   preprocess_image flat_pil (one_pixel ''YCbCr'' [16, 128, 128]) w0 =
     Inr (Some (expand_dims (divide_array (np_array (resized ''YCbCr'' [16, 128, 128])) 255) 0),
          w0) \<and>
   shape (expand_dims (divide_array (np_array (resized ''YCbCr'' [16, 128, 128])) 255) 0) =
     [1, 224, 224, 3]"
proof -
  have v: "valid_image (one_pixel ''YCbCr'' [16, 128, 128])"
    by (simp add: valid_image_def one_pixel_def MODES_def integer_between_def)
  have run: "preprocess_image flat_pil (one_pixel ''YCbCr'' [16, 128, 128]) w0 =
     Inr (Some (expand_dims (divide_array (np_array (resized ''YCbCr'' [16, 128, 128])) 255) 0),
          w0)"
    using preprocess_body_plain [OF flat_resize_one_pixel, of "''YCbCr''" "[16, 128, 128]"]
    by (simp add: preprocess_image_def resized_def)
  have sh: "shape (expand_dims (divide_array (np_array (resized ''YCbCr'' [16, 128, 128])) 255) 0) =
     [1, 224, 224, 3]"
    by (simp add: expand_dims_def divide_array_def np_array_def resized_def)
  have m: "mode (one_pixel ''YCbCr'' [16, 128, 128]) \<noteq> ''RGB''"
    "mode (one_pixel ''YCbCr'' [16, 128, 128]) \<noteq> ''RGBA''"
    by (simp_all add: one_pixel_def)
  from m v flat_resize_one_pixel run sh show ?thesis by (intro conjI)
qed

end
